theory Spec2Isabelle
  imports Main
begin

section \<open>JavaScript values\<close>

text \<open>
  The payload of a worker command is an untyped JavaScript value. Objects are property
  lists; numbers are the integers (the only number the handlers inspect is a listener
  count).
\<close>

datatype jsval =
    JUndefined
  | JNull
  | JBool bool
  | JNum int
  | JStr string
  | JObj "(string \<times> jsval) list"

text \<open>The operand of \<^verbatim>\<open>!v\<close>: a value is falsy when it is undefined, null, false, 0 or the
  empty string.\<close>

fun truthy :: "jsval \<Rightarrow> bool" where
  "truthy JUndefined = False"
| "truthy JNull = False"
| "truthy (JBool b) = b"
| "truthy (JNum n) = (n \<noteq> 0)"
| "truthy (JStr s) = (s \<noteq> [])"
| "truthy (JObj ps) = True"

datatype error = TypeError | DatabaseError string

text \<open>Property access \<^verbatim>\<open>v.k\<close>: a TypeError on undefined and null, the property's value on
  an object that has it, undefined everywhere else.\<close>

fun get_prop :: "jsval \<Rightarrow> string \<Rightarrow> error + jsval" where
  "get_prop JUndefined k = Inl TypeError"
| "get_prop JNull k = Inl TypeError"
| "get_prop (JObj ps) k = Inr (case map_of ps k of None \<Rightarrow> JUndefined | Some v \<Rightarrow> v)"
| "get_prop v k = Inr JUndefined"

section \<open>The names MainHelper.ts imports\<close>

text \<open>
  The enumerations and constant tables that MainHelper.ts reads are declared in other
  files. Each member that \<^verbatim>\<open>establishServiceWorkerChannel\<close> names is a constructor of
  its own; every other member is the numbered constructor at the end.
\<close>

text \<open>Modelled from the spec: \<^verbatim>\<open>WindowEnvironmentKind\<close> (models/WindowEnvironmentKind) is
  missing; the role of the execution context, of which line 153 names the embedded proxy
  frame.\<close>

datatype WindowEnvironmentKind = OneSignalProxyFrame | OtherWindowEnvironment nat

text \<open>Modelled from the spec: \<^verbatim>\<open>WorkerMessengerCommand\<close> (libraries/WorkerMessenger) is
  missing; the command kinds Displayed, Clicked, RedirectRequested and Dismissed.\<close>

datatype WorkerMessengerCommand =
    NotificationDisplayed
  | NotificationClicked
  | RedirectPage
  | NotificationDismissed
  | OtherCommand nat

text \<open>Modelled from the spec: the table \<^verbatim>\<open>OneSignal.EVENTS\<close> is missing; the event kinds
  of the listener registry.\<close>

datatype OneSignalEvent =
    NOTIFICATION_DISPLAYED
  | NOTIFICATION_CLICKED
  | NOTIFICATION_DISMISSED
  | OTHER_EVENT nat

text \<open>Modelled from the spec: the table \<^verbatim>\<open>OneSignal.POSTMAM_COMMANDS\<close> is missing; the
  query and the relay message of the Proxy Reply Channel.\<close>

datatype PostmamCommand = GET_EVENT_LISTENER_COUNT | SERVICEWORKER_COMMAND_REDIRECT

section \<open>Effects and the environment of a handler\<close>

text \<open>The object literal \<^verbatim>\<open>{ url: url, data: data, timestamp: Date.now() }\<close> of line 197.\<close>

record InboxEntry =
  url :: jsval
  data :: jsval
  timestamp :: nat

text \<open>The second argument of \<^verbatim>\<open>proxyFrame.messenger.message\<close>: an event name (line 159) or
  the command's payload (line 209).\<close>

datatype message_data = EventName OneSignalEvent | Payload jsval

text \<open>
  What a handler does to its collaborators, in program order:
  \<^item> \<open>LogDebug\<close>: a call of \<^verbatim>\<open>log.debug\<close> (the text is not recorded);
  \<^item> \<open>EventTrigger ev d\<close>: \<^verbatim>\<open>Event.trigger(ev, d)\<close>;
  \<^item> \<open>DatabasePut t en\<close>: \<^verbatim>\<open>Database.put(t, en)\<close>;
  \<^item> \<open>PostmamMessage c d r\<close>: \<^verbatim>\<open>proxyFrame.messenger.message(c, d[, onReply])\<close>, with \<open>r\<close>
    telling whether a reply callback was passed.
\<close>

datatype effect =
    LogDebug
  | EventTrigger OneSignalEvent jsval
  | DatabasePut string InboxEntry
  | PostmamMessage PostmamCommand message_data bool

text \<open>The state of a JavaScript promise once nothing more can happen to it. \<open>Pending\<close> is a
  promise that is never settled. A callback that is not async and returns normally is
  shown as \<open>Resolved ()\<close>.\<close>

datatype 'a promise = Resolved 'a | Rejected error | Pending

text \<open>
  Modelled from the spec: \<^verbatim>\<open>Postmam.message\<close> (the Proxy Reply Channel) is not in
  MainHelper.ts. \<^verbatim>\<open>query(kind, onReply)\<close> sends a command to the controlling frame and
  invokes \<^verbatim>\<open>onReply\<close> exactly once with the remote count; nothing bounds the wait.
  \<open>listenerCountReply pf ev\<close> is the \<^verbatim>\<open>reply.data\<close> the controlling frame answers with
  for event \<open>ev\<close>, or \<open>None\<close> when it never answers.
\<close>

record ProxyFrame =
  listenerCountReply :: "OneSignalEvent \<Rightarrow> int option"

text \<open>
  Everything the handlers read from their surroundings:
  \<^item> \<open>windowEnv\<close>: \<^verbatim>\<open>SdkEnvironment.getWindowEnv()\<close>;
  \<^item> \<open>proxyFrame\<close>: \<^verbatim>\<open>OneSignal.proxyFrame\<close>, \<open>None\<close> when it is unset;
  \<^item> \<open>getListeners ev\<close>: \<^verbatim>\<open>OneSignal.getListeners(ev)\<close>, the registered listeners by
    an opaque number;
  \<^item> \<open>location_href\<close>: \<^verbatim>\<open>location.href\<close>;
  \<^item> \<open>Date_now\<close>: \<^verbatim>\<open>Date.now()\<close>, milliseconds since the epoch;
  \<^item> \<open>Database_fault\<close>: the error \<^verbatim>\<open>Database.put\<close> rejects with, \<open>None\<close> when the write
    succeeds.
\<close>

record env =
  windowEnv :: WindowEnvironmentKind
  proxyFrame :: "ProxyFrame option"
  getListeners :: "OneSignalEvent \<Rightarrow> nat list"
  location_href :: string
  Date_now :: nat
  Database_fault :: "error option"

type_synonym handler = "jsval \<Rightarrow> env \<Rightarrow> effect list \<times> unit promise"

section \<open>The four command handlers of establishServiceWorkerChannel\<close>

text \<open>Lines 146-149.\<close>

definition onNotificationDisplayed :: handler where
  "onNotificationDisplayed d e =
     ([LogDebug, EventTrigger NOTIFICATION_DISPLAYED d], Resolved ())"

text \<open>Lines 154-166: the promise awaited in the proxy frame. Its executor sends the query
  only when \<^verbatim>\<open>OneSignal.proxyFrame\<close> is set, and \<^verbatim>\<open>resolve\<close> is called only from the
  reply callback.\<close>

definition proxyListenerCount :: "env \<Rightarrow> effect list \<times> int promise" where
  "proxyListenerCount e =
     (case proxyFrame e of
        None \<Rightarrow> ([], Pending)
      | Some pf \<Rightarrow>
          ([PostmamMessage GET_EVENT_LISTENER_COUNT (EventName NOTIFICATION_CLICKED) True],
           (case listenerCountReply pf NOTIFICATION_CLICKED of
              None \<Rightarrow> Pending
            | Some callbackCount \<Rightarrow> Resolved callbackCount)))"

text \<open>Lines 152-169: the value of \<^verbatim>\<open>clickedListenerCallbackCount\<close>.\<close>

definition clickedListenerCallbackCount :: "env \<Rightarrow> effect list \<times> int promise" where
  "clickedListenerCallbackCount e =
     (if windowEnv e = OneSignalProxyFrame then proxyListenerCount e
      else ([], Resolved (int (length (getListeners e NOTIFICATION_CLICKED)))))"

text \<open>Lines 188-197: the branch taken when the count is 0.\<close>

definition storeClickedEvent :: "jsval \<Rightarrow> env \<Rightarrow> effect list \<times> unit promise" where
  "storeClickedEvent d e =
     (case get_prop d ''url'' of
        Inl err \<Rightarrow> ([LogDebug], Rejected err)
      | Inr u \<Rightarrow>
          ([LogDebug,
            DatabasePut ''NotificationOpened''
              \<lparr>url = (if \<not> truthy u then JStr (location_href e) else u),
               data = d, timestamp = Date_now e\<rparr>],
           (case Database_fault e of None \<Rightarrow> Resolved () | Some err \<Rightarrow> Rejected err)))"

text \<open>Lines 151-201.\<close>

definition onNotificationClicked :: handler where
  "onNotificationClicked d e =
     (case clickedListenerCallbackCount e of
        (fx, Pending) \<Rightarrow> (fx, Pending)
      | (fx, Rejected err) \<Rightarrow> (fx, Rejected err)
      | (fx, Resolved n) \<Rightarrow>
          if n = 0 then (fx @ fst (storeClickedEvent d e), snd (storeClickedEvent d e))
          else (fx @ [EventTrigger NOTIFICATION_CLICKED d], Resolved ()))"

text \<open>Lines 203-211.\<close>

definition onRedirectPage :: handler where
  "onRedirectPage d e =
     (case proxyFrame e of
        None \<Rightarrow> ([LogDebug], Resolved ())
      | Some pf \<Rightarrow>
          ([LogDebug, PostmamMessage SERVICEWORKER_COMMAND_REDIRECT (Payload d) False],
           Resolved ()))"

text \<open>Lines 213-215.\<close>

definition onNotificationDismissed :: handler where
  "onNotificationDismissed d e = ([EventTrigger NOTIFICATION_DISMISSED d], Resolved ())"

section \<open>The command channel\<close>

text \<open>
  Modelled from the spec: the class \<^verbatim>\<open>WorkerMessenger\<close> (the Command Channel) is missing.
  It holds the registered command handlers, in the order of their registration.
\<close>

record WorkerMessenger =
  replies :: "(WorkerMessengerCommand \<times> handler) list"

text \<open>Modelled from the spec: \<^verbatim>\<open>WorkerMessenger.off()\<close> is missing; it clears any
  previously registered command handlers.\<close>

definition WorkerMessenger_off :: "WorkerMessenger \<Rightarrow> WorkerMessenger" where
  "WorkerMessenger_off wm = wm\<lparr>replies := []\<rparr>"

text \<open>Modelled from the spec: \<^verbatim>\<open>WorkerMessenger.on(command, callback)\<close> is missing;
  it associates exactly one handler per command kind, and registering a second handler
  for the same kind replaces the first.\<close>

definition WorkerMessenger_on ::
  "WorkerMessengerCommand \<Rightarrow> handler \<Rightarrow> WorkerMessenger \<Rightarrow> WorkerMessenger" where
  "WorkerMessenger_on c h wm =
     wm\<lparr>replies := filter (\<lambda>r. fst r \<noteq> c) (replies wm) @ [(c, h)]\<rparr>"

text \<open>Modelled from the spec: the delivery of a received command by \<^verbatim>\<open>WorkerMessenger\<close>
  is missing; it runs the handlers registered for the command's kind. The result lists
  their outcomes, one per handler run.\<close>

definition dispatch ::
  "WorkerMessenger \<Rightarrow> WorkerMessengerCommand \<Rightarrow> jsval \<Rightarrow> env \<Rightarrow> (effect list \<times> unit promise) list" where
  "dispatch wm c d e = map (\<lambda>r. snd r d e) (filter (\<lambda>r. fst r = c) (replies wm))"

text \<open>Lines 142-216.\<close>

definition establishServiceWorkerChannel :: "WorkerMessenger \<Rightarrow> WorkerMessenger" where
  "establishServiceWorkerChannel workerMessenger =
     WorkerMessenger_on NotificationDismissed onNotificationDismissed
       (WorkerMessenger_on RedirectPage onRedirectPage
         (WorkerMessenger_on NotificationClicked onNotificationClicked
           (WorkerMessenger_on NotificationDisplayed onNotificationDisplayed
             (WorkerMessenger_off workerMessenger))))"

section \<open>Reading a trace of effects\<close>

text \<open>The calls of \<^verbatim>\<open>Event.trigger\<close> in a trace: the event and the payload handed to the
  listeners.\<close>

fun broadcasts :: "effect list \<Rightarrow> (OneSignalEvent \<times> jsval) list" where
  "broadcasts [] = []"
| "broadcasts (EventTrigger ev d # fx) = (ev, d) # broadcasts fx"
| "broadcasts (x # fx) = broadcasts fx"

text \<open>The entries handed to \<^verbatim>\<open>Database.put\<close> for the table \<^verbatim>\<open>NotificationOpened\<close>.\<close>

fun inboxEntries :: "effect list \<Rightarrow> InboxEntry list" where
  "inboxEntries [] = []"
| "inboxEntries (DatabasePut t en # fx) =
     (if t = ''NotificationOpened'' then en # inboxEntries fx else inboxEntries fx)"
| "inboxEntries (x # fx) = inboxEntries fx"

text \<open>The messages sent to the controlling frame.\<close>

fun proxyMessages :: "effect list \<Rightarrow> (PostmamCommand \<times> message_data \<times> bool) list" where
  "proxyMessages [] = []"
| "proxyMessages (PostmamMessage c d r # fx) = (c, d, r) # proxyMessages fx"
| "proxyMessages (x # fx) = proxyMessages fx"

text \<open>The invariant of the data model, read on the trace of one dispatch: a broadcast and
  no inbox write, or one inbox write and no broadcast.\<close>

definition exactlyOneOutcome :: "effect list \<Rightarrow> bool" where
  "exactlyOneOutcome fx =
     (length (broadcasts fx) + length (inboxEntries fx) = 1)"

text \<open>The url a payload provides: the value of its \<^verbatim>\<open>url\<close> property when it has one.\<close>

fun providedUrl :: "jsval \<Rightarrow> jsval option" where
  "providedUrl (JObj ps) = map_of ps ''url''"
| "providedUrl v = None"

section \<open>Concrete payloads and environments\<close>

definition clickPayload :: jsval where
  "clickPayload = JObj [(''id'', JStr ''n1''), (''url'', JStr ''https://example.com/target'')]"

definition emptyUrlPayload :: jsval where
  "emptyUrlPayload = JObj [(''id'', JStr ''n2''), (''url'', JStr [])]"

definition noUrlPayload :: jsval where
  "noUrlPayload = JObj [(''id'', JStr ''n3'')]"

definition noListeners :: "OneSignalEvent \<Rightarrow> nat list" where
  "noListeners ev = []"

definition oneClickListener :: "OneSignalEvent \<Rightarrow> nat list" where
  "oneClickListener ev = (if ev = NOTIFICATION_CLICKED then [7] else [])"

definition silentFrame :: ProxyFrame where
  "silentFrame = \<lparr>listenerCountReply = (\<lambda>ev. None)\<rparr>"

definition answeringFrame :: "int \<Rightarrow> ProxyFrame" where
  "answeringFrame n = \<lparr>listenerCountReply = (\<lambda>ev. Some n)\<rparr>"

text \<open>A page that is not the proxy frame and has no proxy frame of its own.\<close>

definition hostPage :: "(OneSignalEvent \<Rightarrow> nat list) \<Rightarrow> error option \<Rightarrow> env" where
  "hostPage ls fault =
     \<lparr>windowEnv = OtherWindowEnvironment 0, proxyFrame = None, getListeners = ls,
      location_href = ''https://example.com/page'', Date_now = 1500000000000,
      Database_fault = fault\<rparr>"

text \<open>The proxy frame, with the messenger \<open>pf\<close> to its controlling frame (or none).\<close>

definition proxyPage :: "ProxyFrame option \<Rightarrow> (OneSignalEvent \<Rightarrow> nat list) \<Rightarrow> env" where
  "proxyPage pf ls =
     \<lparr>windowEnv = OneSignalProxyFrame, proxyFrame = pf, getListeners = ls,
      location_href = ''https://sub.example.com/proxy'', Date_now = 1500000000000,
      Database_fault = None\<rparr>"

text \<open>A channel that still holds handlers of an earlier owner, two of them for one
  command.\<close>

definition staleChannel :: WorkerMessenger where
  "staleChannel =
     \<lparr>replies = [(NotificationClicked, onNotificationDismissed),
                 (NotificationClicked, onNotificationDisplayed),
                 (OtherCommand 3, onRedirectPage)]\<rparr>"

section \<open>Traces of the handlers\<close>

lemma broadcasts_append: "broadcasts (fx @ gx) = broadcasts fx @ broadcasts gx"
  by (induction fx rule: broadcasts.induct) simp_all

lemma inboxEntries_append: "inboxEntries (fx @ gx) = inboxEntries fx @ inboxEntries gx"
  by (induction fx rule: inboxEntries.induct) simp_all

lemma proxyMessages_append: "proxyMessages (fx @ gx) = proxyMessages fx @ proxyMessages gx"
  by (induction fx rule: proxyMessages.induct) simp_all

lemma count_trace:
  "broadcasts (fst (clickedListenerCallbackCount e)) = []"
  "inboxEntries (fst (clickedListenerCallbackCount e)) = []"
  by (simp_all add: clickedListenerCallbackCount_def proxyListenerCount_def split: option.splits)

lemma count_never_rejects: "snd (clickedListenerCallbackCount e) \<noteq> Rejected err"
  by (simp add: clickedListenerCallbackCount_def proxyListenerCount_def split: option.splits)

lemma clicked_unfold:
  assumes "snd (clickedListenerCallbackCount e) = Resolved n"
  shows "onNotificationClicked d e =
     (if n = 0
      then (fst (clickedListenerCallbackCount e) @ fst (storeClickedEvent d e),
            snd (storeClickedEvent d e))
      else (fst (clickedListenerCallbackCount e) @ [EventTrigger NOTIFICATION_CLICKED d],
            Resolved ()))"
proof (cases "clickedListenerCallbackCount e")
  case (Pair fx p)
  with assms have "p = Resolved n" by simp
  with Pair show ?thesis by (simp add: onNotificationClicked_def)
qed

lemma store_object:
  "storeClickedEvent (JObj ps) e =
     ([LogDebug,
       DatabasePut ''NotificationOpened''
         \<lparr>url = (case map_of ps ''url'' of
                   None \<Rightarrow> JStr (location_href e)
                 | Some u \<Rightarrow> if truthy u then u else JStr (location_href e)),
          data = JObj ps, timestamp = Date_now e\<rparr>],
      (case Database_fault e of None \<Rightarrow> Resolved () | Some err \<Rightarrow> Rejected err))"
  by (simp add: storeClickedEvent_def split: option.splits)

lemma bound_replies:
  "replies (establishServiceWorkerChannel wm) =
     [(NotificationDisplayed, onNotificationDisplayed),
      (NotificationClicked, onNotificationClicked),
      (RedirectPage, onRedirectPage),
      (NotificationDismissed, onNotificationDismissed)]"
  by (simp add: establishServiceWorkerChannel_def WorkerMessenger_on_def WorkerMessenger_off_def)

lemma rebind_same: "establishServiceWorkerChannel (establishServiceWorkerChannel wm) = establishServiceWorkerChannel wm"
  by (simp add: establishServiceWorkerChannel_def WorkerMessenger_on_def WorkerMessenger_off_def)

lemma rebind_funpow:
  "(establishServiceWorkerChannel ^^ Suc k) wm = establishServiceWorkerChannel wm"
  by (induction k) (simp_all add: rebind_same)

section \<open>Clicked: one outcome per resolved count\<close>

text \<open>
  C1, as the spec states it: every Clicked command ends in a broadcast or in one inbox
  write, never in neither. In the proxy frame the handler waits for the controlling
  frame's count with no time limit: when no reply comes, the query has been sent, the
  handler stays suspended, and neither a broadcast nor an inbox write happens.
\<close>

theorem clicked_neither_without_reply:
  "\<not> exactlyOneOutcome
       (fst (onNotificationClicked clickPayload (proxyPage (Some silentFrame) oneClickListener)))
   \<and> broadcasts (fst (onNotificationClicked clickPayload (proxyPage (Some silentFrame) oneClickListener))) = []
   \<and> inboxEntries (fst (onNotificationClicked clickPayload (proxyPage (Some silentFrame) oneClickListener))) = []
   \<and> snd (onNotificationClicked clickPayload (proxyPage (Some silentFrame) oneClickListener)) = Pending"
  by (simp add: exactlyOneOutcome_def onNotificationClicked_def clickedListenerCallbackCount_def
      proxyListenerCount_def proxyPage_def silentFrame_def)

text \<open>
  C1, amended: for every Clicked command whose listener count resolves to \<open>n\<close>, exactly
  one of the two outcomes occurs: when \<open>n \<noteq> 0\<close> the payload is broadcast once and
  nothing is written to the inbox; when \<open>n = 0\<close> one entry is handed to the inbox and
  nothing is broadcast. In both cases the dispatch settles.
\<close>

theorem clicked_exactly_one_outcome:
  assumes "snd (clickedListenerCallbackCount e) = Resolved n"
  shows "exactlyOneOutcome (fst (onNotificationClicked (JObj ps) e))
     \<and> (n \<noteq> 0 \<longrightarrow>
          broadcasts (fst (onNotificationClicked (JObj ps) e)) = [(NOTIFICATION_CLICKED, JObj ps)]
          \<and> inboxEntries (fst (onNotificationClicked (JObj ps) e)) = [])
     \<and> (n = 0 \<longrightarrow>
          broadcasts (fst (onNotificationClicked (JObj ps) e)) = []
          \<and> length (inboxEntries (fst (onNotificationClicked (JObj ps) e))) = 1)
     \<and> snd (onNotificationClicked (JObj ps) e) \<noteq> Pending"
proof (cases "n = 0")
  case True
  with assms have "onNotificationClicked (JObj ps) e =
      (fst (clickedListenerCallbackCount e) @ fst (storeClickedEvent (JObj ps) e),
       snd (storeClickedEvent (JObj ps) e))"
    by (simp add: clicked_unfold)
  then show ?thesis
    using True
    by (simp add: exactlyOneOutcome_def broadcasts_append inboxEntries_append count_trace
        store_object split: option.splits)
next
  case False
  with assms have "onNotificationClicked (JObj ps) e =
      (fst (clickedListenerCallbackCount e) @ [EventTrigger NOTIFICATION_CLICKED (JObj ps)],
       Resolved ())"
    by (simp add: clicked_unfold)
  then show ?thesis
    using False
    by (simp add: exactlyOneOutcome_def broadcasts_append inboxEntries_append count_trace)
qed

theorem clicked_exactly_one_outcome_witness:
  "snd (clickedListenerCallbackCount (hostPage noListeners None)) = Resolved 0
   \<and> exactlyOneOutcome (fst (onNotificationClicked clickPayload (hostPage noListeners None)))
   \<and> broadcasts (fst (onNotificationClicked clickPayload (hostPage noListeners None))) = []
   \<and> length (inboxEntries (fst (onNotificationClicked clickPayload (hostPage noListeners None)))) = 1
   \<and> snd (clickedListenerCallbackCount (proxyPage (Some (answeringFrame 2)) noListeners)) = Resolved 2
   \<and> exactlyOneOutcome
        (fst (onNotificationClicked clickPayload (proxyPage (Some (answeringFrame 2)) noListeners)))
   \<and> broadcasts (fst (onNotificationClicked clickPayload (proxyPage (Some (answeringFrame 2)) noListeners)))
        = [(NOTIFICATION_CLICKED, clickPayload)]
   \<and> inboxEntries (fst (onNotificationClicked clickPayload (proxyPage (Some (answeringFrame 2)) noListeners)))
        = []"
proof -
  have local: "snd (clickedListenerCallbackCount (hostPage noListeners None)) = Resolved 0"
    by (simp add: clickedListenerCallbackCount_def hostPage_def noListeners_def)
  have remote: "snd (clickedListenerCallbackCount (proxyPage (Some (answeringFrame 2)) noListeners)) = Resolved 2"
    by (simp add: clickedListenerCallbackCount_def proxyListenerCount_def proxyPage_def answeringFrame_def)
  show ?thesis
    using local remote
      clicked_exactly_one_outcome [OF local, of "[(''id'', JStr ''n1''), (''url'', JStr ''https://example.com/target'')]"]
      clicked_exactly_one_outcome [OF remote, of "[(''id'', JStr ''n1''), (''url'', JStr ''https://example.com/target'')]"]
    by (simp add: clickPayload_def)
qed

section \<open>Rebinding the command channel\<close>

text \<open>
  C2: binding clears every handler registered before, so after any number of calls of
  \<^verbatim>\<open>establishServiceWorkerChannel\<close> the channel holds exactly the four handlers of the
  last call, whatever it held at the start; a command runs the one handler of its kind,
  a command of another kind runs none; and a handler registered for a kind after a
  rebind is the only one that runs for that kind.
\<close>

theorem rebind_keeps_latest_handlers:
  "replies ((establishServiceWorkerChannel ^^ Suc k) wm) =
     [(NotificationDisplayed, onNotificationDisplayed),
      (NotificationClicked, onNotificationClicked),
      (RedirectPage, onRedirectPage),
      (NotificationDismissed, onNotificationDismissed)]
   \<and> dispatch ((establishServiceWorkerChannel ^^ Suc k) wm) c d e =
       (case c of
          NotificationDisplayed \<Rightarrow> [onNotificationDisplayed d e]
        | NotificationClicked \<Rightarrow> [onNotificationClicked d e]
        | RedirectPage \<Rightarrow> [onRedirectPage d e]
        | NotificationDismissed \<Rightarrow> [onNotificationDismissed d e]
        | OtherCommand j \<Rightarrow> [])
   \<and> dispatch (WorkerMessenger_on c B (establishServiceWorkerChannel (WorkerMessenger_on c A wm))) c d e
       = [B d e]"
proof -
  have r: "replies ((establishServiceWorkerChannel ^^ Suc k) wm) =
     [(NotificationDisplayed, onNotificationDisplayed),
      (NotificationClicked, onNotificationClicked),
      (RedirectPage, onRedirectPage),
      (NotificationDismissed, onNotificationDismissed)]"
    by (simp only: rebind_funpow bound_replies)
  have d1: "dispatch ((establishServiceWorkerChannel ^^ Suc k) wm) c d e =
       (case c of
          NotificationDisplayed \<Rightarrow> [onNotificationDisplayed d e]
        | NotificationClicked \<Rightarrow> [onNotificationClicked d e]
        | RedirectPage \<Rightarrow> [onRedirectPage d e]
        | NotificationDismissed \<Rightarrow> [onNotificationDismissed d e]
        | OtherCommand j \<Rightarrow> [])"
    unfolding dispatch_def r by (cases c) simp_all
  have d2: "dispatch (WorkerMessenger_on c B (establishServiceWorkerChannel (WorkerMessenger_on c A wm))) c d e
       = [B d e]"
    by (cases c) (simp_all add: dispatch_def WorkerMessenger_on_def bound_replies)
  from r d1 d2 show ?thesis by blast
qed

theorem rebind_keeps_latest_handlers_witness:
  "map fst (replies staleChannel) = [NotificationClicked, NotificationClicked, OtherCommand 3]
   \<and> dispatch ((establishServiceWorkerChannel ^^ Suc 2) staleChannel) NotificationClicked clickPayload
        (hostPage oneClickListener None)
       = [([EventTrigger NOTIFICATION_CLICKED clickPayload], Resolved ())]
   \<and> dispatch ((establishServiceWorkerChannel ^^ Suc 2) staleChannel) (OtherCommand 3) clickPayload
        (hostPage oneClickListener None) = []"
  using rebind_keeps_latest_handlers [of 2 staleChannel NotificationClicked clickPayload "hostPage oneClickListener None"]
    rebind_keeps_latest_handlers [of 2 staleChannel "OtherCommand 3" clickPayload "hostPage oneClickListener None"]
  by (simp add: staleChannel_def onNotificationClicked_def clickedListenerCallbackCount_def
      hostPage_def oneClickListener_def)

section \<open>Clicked: the entry written to the inbox\<close>

text \<open>
  C3, as the spec states it: with zero listeners, the entry's url is the payload's url
  whenever the payload provides one. A payload whose \<^verbatim>\<open>url\<close> property is the empty
  string provides one, and the entry carries \<^verbatim>\<open>location.href\<close> instead: line 193 tests
  \<^verbatim>\<open>!data.url\<close>.
\<close>

theorem empty_url_not_verbatim:
  "providedUrl emptyUrlPayload = Some (JStr [])
   \<and> snd (clickedListenerCallbackCount (hostPage noListeners None)) = Resolved 0
   \<and> map url (inboxEntries (fst (onNotificationClicked emptyUrlPayload (hostPage noListeners None))))
       = [JStr ''https://example.com/page'']
   \<and> map url (inboxEntries (fst (onNotificationClicked emptyUrlPayload (hostPage noListeners None))))
       \<noteq> [JStr []]"
  by (simp add: emptyUrlPayload_def onNotificationClicked_def clickedListenerCallbackCount_def
      storeClickedEvent_def hostPage_def noListeners_def)

text \<open>
  C3, amended: when a Clicked command resolves to zero listeners, exactly one entry is
  handed to the inbox; its url is the payload's url, verbatim, when that property is
  present and truthy, and \<^verbatim>\<open>location.href\<close> otherwise; its data is the original payload
  and its timestamp the current time in milliseconds.
\<close>

theorem inbox_entry_contents:
  assumes "snd (clickedListenerCallbackCount e) = Resolved 0"
  shows "inboxEntries (fst (onNotificationClicked (JObj ps) e)) =
     [\<lparr>url = (case providedUrl (JObj ps) of
                None \<Rightarrow> JStr (location_href e)
              | Some u \<Rightarrow> if truthy u then u else JStr (location_href e)),
       data = JObj ps, timestamp = Date_now e\<rparr>]"
proof -
  from assms have "fst (onNotificationClicked (JObj ps) e) =
      fst (clickedListenerCallbackCount e) @ fst (storeClickedEvent (JObj ps) e)"
    by (simp add: clicked_unfold)
  then show ?thesis
    by (simp add: inboxEntries_append count_trace store_object)
qed

theorem inbox_entry_contents_witness:
  "snd (clickedListenerCallbackCount (hostPage noListeners None)) = Resolved 0
   \<and> inboxEntries (fst (onNotificationClicked clickPayload (hostPage noListeners None))) =
       [\<lparr>url = JStr ''https://example.com/target'', data = clickPayload,
         timestamp = 1500000000000\<rparr>]
   \<and> inboxEntries (fst (onNotificationClicked noUrlPayload (hostPage noListeners None))) =
       [\<lparr>url = JStr ''https://example.com/page'', data = noUrlPayload,
         timestamp = 1500000000000\<rparr>]"
proof -
  have local: "snd (clickedListenerCallbackCount (hostPage noListeners None)) = Resolved 0"
    by (simp add: clickedListenerCallbackCount_def hostPage_def noListeners_def)
  show ?thesis
    using local
      inbox_entry_contents [OF local, of "[(''id'', JStr ''n1''), (''url'', JStr ''https://example.com/target'')]"]
      inbox_entry_contents [OF local, of "[(''id'', JStr ''n3'')]"]
    by (simp add: clickPayload_def noUrlPayload_def hostPage_def)
qed

text \<open>
  C10: a Clicked payload whose \<^verbatim>\<open>url\<close> property is present but falsy (the empty string, 0,
  false, null, undefined), dispatched with zero resolved listeners, gives an inbox entry
  whose url is \<^verbatim>\<open>location.href\<close>, not the payload's own value.
\<close>

theorem falsy_url_uses_location:
  assumes "snd (clickedListenerCallbackCount e) = Resolved 0"
    and "providedUrl (JObj ps) = Some u"
    and "\<not> truthy u"
  shows "map url (inboxEntries (fst (onNotificationClicked (JObj ps) e))) = [JStr (location_href e)]"
proof -
  from assms(1) have "fst (onNotificationClicked (JObj ps) e) =
      fst (clickedListenerCallbackCount e) @ fst (storeClickedEvent (JObj ps) e)"
    by (simp add: clicked_unfold)
  with assms(2,3) show ?thesis
    by (simp add: inboxEntries_append count_trace store_object)
qed

theorem falsy_url_uses_location_witness:
  "snd (clickedListenerCallbackCount (hostPage noListeners None)) = Resolved 0
   \<and> providedUrl emptyUrlPayload = Some (JStr [])
   \<and> \<not> truthy (JStr [])
   \<and> map url (inboxEntries (fst (onNotificationClicked emptyUrlPayload (hostPage noListeners None))))
       = [JStr ''https://example.com/page'']"
proof -
  have a: "snd (clickedListenerCallbackCount (hostPage noListeners None)) = Resolved 0"
    by (simp add: clickedListenerCallbackCount_def hostPage_def noListeners_def)
  have b: "providedUrl (JObj [(''id'', JStr ''n2''), (''url'', JStr [])]) = Some (JStr [])"
    by simp
  have c: "\<not> truthy (JStr [])"
    by simp
  from a b c falsy_url_uses_location [OF a b c]
  show ?thesis by (simp add: emptyUrlPayload_def hostPage_def)
qed

section \<open>Displayed, Dismissed and RedirectPage\<close>

text \<open>
  C4: a Displayed or a Dismissed command is broadcast with its payload in every
  environment, whatever the listener registry holds, and writes nothing to the inbox.
\<close>

theorem displayed_dismissed_always_broadcast:
  "broadcasts (fst (onNotificationDisplayed d e)) = [(NOTIFICATION_DISPLAYED, d)]
   \<and> inboxEntries (fst (onNotificationDisplayed d e)) = []
   \<and> snd (onNotificationDisplayed d e) = Resolved ()
   \<and> broadcasts (fst (onNotificationDismissed d e)) = [(NOTIFICATION_DISMISSED, d)]
   \<and> inboxEntries (fst (onNotificationDismissed d e)) = []
   \<and> snd (onNotificationDismissed d e) = Resolved ()
   \<and> onNotificationDisplayed d (e\<lparr>getListeners := ls\<rparr>) = onNotificationDisplayed d e
   \<and> onNotificationDismissed d (e\<lparr>getListeners := ls\<rparr>) = onNotificationDismissed d e"
  by (simp add: onNotificationDisplayed_def onNotificationDismissed_def)

theorem displayed_dismissed_always_broadcast_witness:
  "broadcasts (fst (onNotificationDisplayed clickPayload (hostPage noListeners None)))
       = [(NOTIFICATION_DISPLAYED, clickPayload)]
   \<and> broadcasts (fst (onNotificationDismissed clickPayload (hostPage noListeners None)))
       = [(NOTIFICATION_DISMISSED, clickPayload)]
   \<and> inboxEntries (fst (onNotificationDismissed clickPayload (hostPage noListeners None))) = []"
  using displayed_dismissed_always_broadcast [of clickPayload "hostPage noListeners None"]
  by simp

text \<open>
  C5: a RedirectPage command writes no inbox entry and broadcasts nothing; apart from
  the debug log line its only effect is the relay of the payload to the controlling
  frame, sent without a reply callback (and not sent at all when there is no proxy
  frame).
\<close>

theorem redirect_only_relays:
  "broadcasts (fst (onRedirectPage d e)) = []
   \<and> inboxEntries (fst (onRedirectPage d e)) = []
   \<and> snd (onRedirectPage d e) = Resolved ()
   \<and> filter (\<lambda>x. x \<noteq> LogDebug) (fst (onRedirectPage d e)) =
       (case proxyFrame e of
          None \<Rightarrow> []
        | Some pf \<Rightarrow> [PostmamMessage SERVICEWORKER_COMMAND_REDIRECT (Payload d) False])"
  by (simp add: onRedirectPage_def split: option.splits)

theorem redirect_only_relays_witness:
  "fst (onRedirectPage (JStr ''https://example.com/next'') (proxyPage (Some silentFrame) oneClickListener))
     = [LogDebug,
        PostmamMessage SERVICEWORKER_COMMAND_REDIRECT (Payload (JStr ''https://example.com/next'')) False]
   \<and> broadcasts (fst (onRedirectPage (JStr ''https://example.com/next'')
         (proxyPage (Some silentFrame) oneClickListener))) = []
   \<and> inboxEntries (fst (onRedirectPage (JStr ''https://example.com/next'')
         (proxyPage (Some silentFrame) oneClickListener))) = []"
  using redirect_only_relays [of "JStr ''https://example.com/next''" "proxyPage (Some silentFrame) oneClickListener"]
  by (simp add: onRedirectPage_def proxyPage_def)

section \<open>The listener count\<close>

text \<open>
  C6: the count is resolved across frames exactly in the proxy frame: there it is the
  promise of lines 154-166 and does not depend on the local registry; in every other
  window environment it is the length of the local listener list for the clicked event,
  whatever proxy frame exists, and no message is sent; a query message is only ever sent
  from the proxy frame.
\<close>

theorem resolver_mode:
  "(windowEnv e = OneSignalProxyFrame \<longrightarrow>
      clickedListenerCallbackCount e = proxyListenerCount e
      \<and> clickedListenerCallbackCount (e\<lparr>getListeners := ls\<rparr>) = clickedListenerCallbackCount e)
   \<and> (windowEnv e \<noteq> OneSignalProxyFrame \<longrightarrow>
      clickedListenerCallbackCount e =
        ([], Resolved (int (length (getListeners e NOTIFICATION_CLICKED))))
      \<and> clickedListenerCallbackCount (e\<lparr>proxyFrame := pf\<rparr>) = clickedListenerCallbackCount e)
   \<and> (proxyMessages (fst (clickedListenerCallbackCount e)) \<noteq> [] \<longrightarrow>
      windowEnv e = OneSignalProxyFrame)"
  by (simp add: clickedListenerCallbackCount_def proxyListenerCount_def)

theorem resolver_mode_witness:
  "windowEnv (hostPage oneClickListener None) \<noteq> OneSignalProxyFrame
   \<and> clickedListenerCallbackCount (hostPage oneClickListener None) = ([], Resolved 1)
   \<and> clickedListenerCallbackCount ((hostPage oneClickListener None)\<lparr>proxyFrame := Some (answeringFrame 5)\<rparr>)
       = ([], Resolved 1)
   \<and> windowEnv (proxyPage (Some (answeringFrame 5)) oneClickListener) = OneSignalProxyFrame
   \<and> clickedListenerCallbackCount (proxyPage (Some (answeringFrame 5)) oneClickListener)
       = proxyListenerCount (proxyPage (Some (answeringFrame 5)) oneClickListener)
   \<and> proxyMessages (fst (clickedListenerCallbackCount (proxyPage (Some (answeringFrame 5)) oneClickListener)))
       \<noteq> []"
  using resolver_mode [of "hostPage oneClickListener None" oneClickListener "Some (answeringFrame 5)"]
    resolver_mode [of "proxyPage (Some (answeringFrame 5)) oneClickListener" oneClickListener "Some (answeringFrame 5)"]
  by (simp add: hostPage_def proxyPage_def oneClickListener_def proxyListenerCount_def)

text \<open>
  C7: in the proxy frame, with its messenger to the controlling frame in place and a
  reply carrying the count \<open>n\<close>, resolving the count sends exactly one query message
  (the clicked event's name, with a reply callback) and resolves with \<open>n\<close>, whatever
  the local registry holds.
\<close>

theorem delegated_count_is_reply:
  assumes "windowEnv e = OneSignalProxyFrame"
    and "proxyFrame e = Some pf"
    and "listenerCountReply pf NOTIFICATION_CLICKED = Some n"
  shows "clickedListenerCallbackCount (e\<lparr>getListeners := ls\<rparr>) =
     ([PostmamMessage GET_EVENT_LISTENER_COUNT (EventName NOTIFICATION_CLICKED) True], Resolved n)
   \<and> clickedListenerCallbackCount e =
     ([PostmamMessage GET_EVENT_LISTENER_COUNT (EventName NOTIFICATION_CLICKED) True], Resolved n)"
  using assms by (simp add: clickedListenerCallbackCount_def proxyListenerCount_def)

theorem delegated_count_is_reply_witness:
  "windowEnv (proxyPage (Some (answeringFrame 0)) oneClickListener) = OneSignalProxyFrame
   \<and> proxyFrame (proxyPage (Some (answeringFrame 0)) oneClickListener) = Some (answeringFrame 0)
   \<and> listenerCountReply (answeringFrame 0) NOTIFICATION_CLICKED = Some 0
   \<and> length (getListeners (proxyPage (Some (answeringFrame 0)) oneClickListener) NOTIFICATION_CLICKED) = 1
   \<and> clickedListenerCallbackCount (proxyPage (Some (answeringFrame 0)) oneClickListener) =
     ([PostmamMessage GET_EVENT_LISTENER_COUNT (EventName NOTIFICATION_CLICKED) True], Resolved 0)"
proof -
  have a: "windowEnv (proxyPage (Some (answeringFrame 0)) oneClickListener) = OneSignalProxyFrame"
    by (simp add: proxyPage_def)
  have b: "proxyFrame (proxyPage (Some (answeringFrame 0)) oneClickListener) = Some (answeringFrame 0)"
    by (simp add: proxyPage_def)
  have c: "listenerCountReply (answeringFrame 0) NOTIFICATION_CLICKED = Some 0"
    by (simp add: answeringFrame_def)
  have d: "length (getListeners (proxyPage (Some (answeringFrame 0)) oneClickListener) NOTIFICATION_CLICKED) = 1"
    by (simp add: proxyPage_def oneClickListener_def)
  from a b c d delegated_count_is_reply [OF a b c, of oneClickListener]
  show ?thesis by simp
qed

section \<open>Failures\<close>

text \<open>
  C8: when the count resolves to zero and \<^verbatim>\<open>Database.put\<close> fails, the handler's promise
  is rejected with that error: the one write was attempted, nothing was broadcast, and
  the handler does not resolve as if the event had been stored.
\<close>

theorem inbox_failure_propagates:
  assumes "snd (clickedListenerCallbackCount e) = Resolved 0"
    and "Database_fault e = Some err"
  shows "snd (onNotificationClicked (JObj ps) e) = Rejected err
     \<and> broadcasts (fst (onNotificationClicked (JObj ps) e)) = []
     \<and> length (inboxEntries (fst (onNotificationClicked (JObj ps) e))) = 1"
proof -
  from assms(1) have "onNotificationClicked (JObj ps) e =
      (fst (clickedListenerCallbackCount e) @ fst (storeClickedEvent (JObj ps) e),
       snd (storeClickedEvent (JObj ps) e))"
    by (simp add: clicked_unfold)
  with assms(2) show ?thesis
    by (simp add: broadcasts_append inboxEntries_append count_trace store_object)
qed

theorem inbox_failure_propagates_witness:
  "snd (clickedListenerCallbackCount (hostPage noListeners (Some (DatabaseError ''quota'')))) = Resolved 0
   \<and> Database_fault (hostPage noListeners (Some (DatabaseError ''quota''))) = Some (DatabaseError ''quota'')
   \<and> snd (onNotificationClicked clickPayload (hostPage noListeners (Some (DatabaseError ''quota''))))
       = Rejected (DatabaseError ''quota'')
   \<and> broadcasts (fst (onNotificationClicked clickPayload (hostPage noListeners (Some (DatabaseError ''quota'')))))
       = []"
proof -
  have a: "snd (clickedListenerCallbackCount (hostPage noListeners (Some (DatabaseError ''quota'')))) = Resolved 0"
    by (simp add: clickedListenerCallbackCount_def hostPage_def noListeners_def)
  have b: "Database_fault (hostPage noListeners (Some (DatabaseError ''quota''))) = Some (DatabaseError ''quota'')"
    by (simp add: hostPage_def)
  from a b inbox_failure_propagates [OF a b, of "[(''id'', JStr ''n1''), (''url'', JStr ''https://example.com/target'')]"]
  show ?thesis by (simp add: clickPayload_def)
qed

text \<open>
  C9, as the spec states it: without a proxy frame object the count falls back to the
  local registry. In the proxy frame with \<^verbatim>\<open>OneSignal.proxyFrame\<close> unset and one local
  listener, the count is not the local one: no query is sent and the promise is never
  resolved.
\<close>

theorem no_local_fallback_without_proxy_frame:
  "windowEnv (proxyPage None oneClickListener) = OneSignalProxyFrame
   \<and> proxyFrame (proxyPage None oneClickListener) = None
   \<and> length (getListeners (proxyPage None oneClickListener) NOTIFICATION_CLICKED) = 1
   \<and> clickedListenerCallbackCount (proxyPage None oneClickListener) = ([], Pending)
   \<and> clickedListenerCallbackCount (proxyPage None oneClickListener) \<noteq>
       ([], Resolved (int (length (getListeners (proxyPage None oneClickListener) NOTIFICATION_CLICKED))))
   \<and> onNotificationClicked clickPayload (proxyPage None oneClickListener) = ([], Pending)"
  by (simp add: onNotificationClicked_def clickedListenerCallbackCount_def proxyListenerCount_def
      proxyPage_def oneClickListener_def)

lemma clicked_sends_nothing_without_proxy_frame:
  assumes "proxyFrame e = None"
  shows "proxyMessages (fst (onNotificationClicked d e)) = []"
proof (cases "windowEnv e = OneSignalProxyFrame")
  case True
  with assms show ?thesis
    by (simp add: onNotificationClicked_def clickedListenerCallbackCount_def proxyListenerCount_def)
next
  case False
  then show ?thesis
    by (simp add: onNotificationClicked_def clickedListenerCallbackCount_def storeClickedEvent_def
        split: sum.splits)
qed

text \<open>
  C9, amended: when \<^verbatim>\<open>OneSignal.proxyFrame\<close> is unset, the RedirectPage handler sends
  nothing and returns normally, the Clicked handler sends no message to a controlling
  frame, the resolution of the listener count never rejects, and outside the proxy frame
  the count is the local one.
\<close>

theorem missing_proxy_frame_is_silent:
  assumes "proxyFrame e = None"
  shows "onRedirectPage d e = ([LogDebug], Resolved ())
     \<and> proxyMessages (fst (onNotificationClicked d e)) = []
     \<and> snd (clickedListenerCallbackCount e) \<noteq> Rejected err
     \<and> (windowEnv e \<noteq> OneSignalProxyFrame \<longrightarrow>
          clickedListenerCallbackCount e =
            ([], Resolved (int (length (getListeners e NOTIFICATION_CLICKED)))))"
proof -
  from assms have relay: "onRedirectPage d e = ([LogDebug], Resolved ())"
    by (simp add: onRedirectPage_def)
  have quiet: "proxyMessages (fst (onNotificationClicked d e)) = []"
    by (rule clicked_sends_nothing_without_proxy_frame [OF assms])
  have noerr: "snd (clickedListenerCallbackCount e) \<noteq> Rejected err"
    by (rule count_never_rejects)
  have local: "windowEnv e \<noteq> OneSignalProxyFrame \<longrightarrow>
      clickedListenerCallbackCount e =
        ([], Resolved (int (length (getListeners e NOTIFICATION_CLICKED))))"
    by (simp add: clickedListenerCallbackCount_def)
  from relay quiet noerr local show ?thesis by blast
qed

theorem missing_proxy_frame_is_silent_witness:
  "proxyFrame (hostPage oneClickListener None) = None
   \<and> onRedirectPage (JStr ''https://example.com/next'') (hostPage oneClickListener None)
       = ([LogDebug], Resolved ())
   \<and> proxyMessages (fst (onNotificationClicked clickPayload (hostPage oneClickListener None))) = []
   \<and> clickedListenerCallbackCount (hostPage oneClickListener None) = ([], Resolved 1)"
proof -
  have a: "proxyFrame (hostPage oneClickListener None) = None"
    by (simp add: hostPage_def)
  have b: "proxyFrame (hostPage oneClickListener None) = None
      \<and> onRedirectPage (JStr ''https://example.com/next'') (hostPage oneClickListener None)
          = ([LogDebug], Resolved ())"
    using a missing_proxy_frame_is_silent [OF a, of "JStr ''https://example.com/next''" TypeError]
    by simp
  have c: "proxyMessages (fst (onNotificationClicked clickPayload (hostPage oneClickListener None))) = []
      \<and> clickedListenerCallbackCount (hostPage oneClickListener None) = ([], Resolved 1)"
    using missing_proxy_frame_is_silent [OF a, of clickPayload TypeError]
    by (simp add: hostPage_def oneClickListener_def)
  from b c show ?thesis by simp
qed

end
